theory Spec2Isabelle
  imports Main "HOL-Library.Word"
begin

section \<open>The SmarAct MCS wrapper (smaract.py)\<close>

text \<open>
  The class \<open>SmarAct\<close> of \<open>smaract.py\<close> drives the vendor library
  \<open>MCSControl.dll\<close> through ctypes. The library is not part of the repository: it is
  a parameter of every function below, a deterministic machine that answers each call with
  a status and with what it wrote to the call's output parameters.
\<close>

subsection \<open>Python values\<close>

text \<open>A Python \<open>str\<close> is a sequence of code points; a \<open>bytes\<close> object is a \<open>char list\<close>.\<close>

type_synonym pystr = "nat list"

definition str :: "string \<Rightarrow> pystr" where
  "str s = map of_char s"

text \<open>
  The exceptions the module can raise: \<open>Exception(message)\<close> at its own \<open>raise\<close>
  statements, \<open>UnicodeDecodeError\<close> from \<open>outList.decode()\<close> and
  \<open>UnicodeEncodeError\<close> from \<open>controller_locator.encode('ascii')\<close>.
\<close>

datatype exn = Exception string | UnicodeDecodeError | UnicodeEncodeError

subsection \<open>ctypes\<close>

text \<open>
  \<open>ctypes.c_ulong(n)\<close> and \<open>ctypes.c_long(n)\<close> take any Python integer and keep its
  low bits (ctypes does no overflow checking); \<open>.value\<close> reads a \<open>c_ulong\<close> back as
  an unsigned and a \<open>c_long\<close> as a two's complement integer. The width \<open>'l\<close> is that
  of the C type \<open>long\<close>: 32 bits on Windows, where \<open>MCSControl.dll\<close> loads.
\<close>

definition c_ulong :: "int \<Rightarrow> 'l::len word" where
  "c_ulong n = word_of_int n"

definition c_long :: "int \<Rightarrow> 'l::len word" where
  "c_long n = word_of_int n"

definition ulong_value :: "'l::len word \<Rightarrow> int" where
  "ulong_value x = uint x"

definition long_value :: "'l::len word \<Rightarrow> int" where
  "long_value x = sint x"

text \<open>\<open>ctypes.c_char()\<close> is one zero byte.\<close>

definition c_char :: char where
  "c_char = CHR 0x00"

subsection \<open>The transport\<close>

text \<open>
  One constructor per entry point of the library that the module calls, with the arguments
  in the order of the call; \<open>'w\<close> is the type of a C \<open>long\<close>, an \<open>'l word\<close> below.
  Output parameters passed by reference (\<open>ctypes.byref\<close>) are not arguments here:
  what the library wrote to them is part of its reply. The in-out buffer \<open>outList\<close> of
  \<open>SA_FindSystems\<close> is passed with its initial contents.
\<close>

datatype 'w call =
    SA_FindSystems char "char list" 'w
  | SA_OpenSystem "char list" "char list"
  | SA_CloseSystem 'w
  | SA_GetNumberOfChannels 'w
  | SA_GetPosition_S 'w 'w
  | SA_FindReferenceMark_S 'w 'w 'w 'w 'w
  | SA_GotoPositionRelative_S 'w 'w 'w 'w
  | SA_GotoPositionAbsolute_S 'w 'w 'w 'w
  | SA_Stop_S 'w 'w

text \<open>
  The reply: the returned status, the integer output parameter after the call (the system
  index, the number of channels, the position) and the buffer \<open>outList\<close> after the call.
\<close>

record 'w reply =
  status :: int
  out_value :: 'w
  out_list :: "char list"

type_synonym ('t, 'w) dll = "'t \<Rightarrow> 'w call \<Rightarrow> 'w reply \<times> 't"

text \<open>
  The world outside the object: the state of the library, the calls issued to it so far
  (oldest first) and the lines printed.
\<close>

record ('t, 'w) world =
  dll_state :: 't
  calls :: "'w call list"
  stdout :: "string list"

definition invoke :: "('t, 'w) dll \<Rightarrow> 'w call \<Rightarrow> ('t, 'w) world \<Rightarrow> 'w reply \<times> ('t, 'w) world" where
  "invoke SmaractDll c w =
     (let (r, t) = SmaractDll (dll_state w) c
      in (r, w\<lparr>dll_state := t, calls := calls w @ [c]\<rparr>))"

definition print :: "string \<Rightarrow> ('t, 'w) world \<Rightarrow> ('t, 'w) world" where
  "print line w = w\<lparr>stdout := stdout w @ [line]\<rparr>"

subsection \<open>Decoding the buffer\<close>

text \<open>
  \<open>outList.decode()\<close> decodes UTF-8 strictly: one code point per well-formed sequence,
  \<open>UnicodeDecodeError\<close> (here \<open>None\<close>) on a byte that starts no sequence, on a
  continuation byte out of range (overlong forms, surrogates and code points above
  U+10FFFF are refused) and on a sequence cut off by the end of the data.
\<close>

definition cont :: "nat \<Rightarrow> bool" where
  "cont b = (128 \<le> b \<and> b \<le> 191)"

definition second_ok :: "nat \<Rightarrow> nat \<Rightarrow> bool" where
  "second_ok b0 b1 =
     (if b0 = 224 then 160 \<le> b1 \<and> b1 \<le> 191
      else if b0 = 237 then 128 \<le> b1 \<and> b1 \<le> 159
      else if b0 = 240 then 144 \<le> b1 \<and> b1 \<le> 191
      else if b0 = 244 then 128 \<le> b1 \<and> b1 \<le> 143
      else cont b1)"

fun utf8 :: "nat list \<Rightarrow> pystr option" where
  "utf8 [] = Some []"
| "utf8 (b0 # bs) =
     (if b0 < 128 then map_option (Cons b0) (utf8 bs)
      else if 194 \<le> b0 \<and> b0 \<le> 223 then
        (case bs of
           b1 # r \<Rightarrow>
             if cont b1
             then map_option (Cons ((b0 - 192) * 64 + (b1 - 128))) (utf8 r)
             else None
         | _ \<Rightarrow> None)
      else if 224 \<le> b0 \<and> b0 \<le> 239 then
        (case bs of
           b1 # b2 # r \<Rightarrow>
             if second_ok b0 b1 \<and> cont b2
             then map_option (Cons ((b0 - 224) * 4096 + (b1 - 128) * 64 + (b2 - 128))) (utf8 r)
             else None
         | _ \<Rightarrow> None)
      else if 240 \<le> b0 \<and> b0 \<le> 244 then
        (case bs of
           b1 # b2 # b3 # r \<Rightarrow>
             if second_ok b0 b1 \<and> cont b2 \<and> cont b3
             then map_option
                    (Cons ((b0 - 240) * 262144 + (b1 - 128) * 4096 + (b2 - 128) * 64 + (b3 - 128)))
                    (utf8 r)
             else None
         | _ \<Rightarrow> None)
      else None)"

definition decode :: "char list \<Rightarrow> pystr option" where
  "decode bs = utf8 (map of_char bs)"

text \<open>\<open>s.encode('ascii')\<close>: \<open>UnicodeEncodeError\<close> (here \<open>None\<close>) on a code point above 127.\<close>

definition encode_ascii :: "pystr \<Rightarrow> char list option" where
  "encode_ascii s = (if list_all (\<lambda>c. c < 128) s then Some (map char_of s) else None)"

subsection \<open>The locator pattern\<close>

text \<open>
  \<open>re.findall("usb:id:[0-9]{10}", text)\<close>: the pattern is the seven characters of the
  tag and ten characters of the class \<open>[0-9]\<close> (code points 48 to 57), so a match is
  17 characters long. \<open>findall\<close> scans from the left, takes a match where one starts,
  goes on after its end, and moves one character on where none starts.
\<close>

definition is_digit :: "nat \<Rightarrow> bool" where
  "is_digit c = (48 \<le> c \<and> c \<le> 57)"

definition match_locator :: "pystr \<Rightarrow> pystr option" where
  "match_locator s =
     (if 17 \<le> length s \<and> take 7 s = str ''usb:id:'' \<and> list_all is_digit (take 10 (drop 7 s))
      then Some (take 17 s) else None)"

function findall_locator :: "pystr \<Rightarrow> pystr list" where
  "findall_locator s =
     (if s = [] then []
      else case match_locator s of
             Some m \<Rightarrow> m # findall_locator (drop 17 s)
           | None \<Rightarrow> findall_locator (tl s))"
  by pat_completeness auto
termination
  by (relation "measure length") auto

declare findall_locator.simps [simp del]

subsection \<open>The class SmarAct\<close>

text \<open>
  The object has two attributes, both assigned in \<open>__init__\<close>. A method takes the
  object and the world and returns its result (\<open>Inl\<close> an exception raised, \<open>Inr\<close> the
  value returned), the object and the world after the call.
\<close>

record smaract =
  controller_locator :: pystr
  system_index :: int

definition ioListSize :: nat where
  "ioListSize = 4096"

definition get_controller_locator ::
  "('t, 'l::len word) dll \<Rightarrow> ('t, 'l word) world \<Rightarrow> (exn + pystr) \<times> ('t, 'l word) world" where
  "get_controller_locator SmaractDll w =
     (let options = c_char;
          outList = replicate ioListSize CHR '' '';
          (r, w1) = invoke SmaractDll (SA_FindSystems options outList (c_ulong (int ioListSize))) w
      in if status r \<noteq> 0 then (Inl (Exception ''SmarAct SA_FindSystems error''), w1)
         else case decode (out_list r) of
                None \<Rightarrow> (Inl UnicodeDecodeError, w1)
              | Some text \<Rightarrow>
                  (case findall_locator text of
                     [] \<Rightarrow> (Inl (Exception ''No controller found''), w1)
                   | m # _ \<Rightarrow> (Inr m, w1)))"

definition init_communication ::
  "('t, 'l::len word) dll \<Rightarrow> pystr \<Rightarrow> ('t, 'l word) world \<Rightarrow> (exn + int) \<times> ('t, 'l word) world" where
  "init_communication SmaractDll locator w =
     (let options = ''sync''
      in case encode_ascii locator of
           None \<Rightarrow> (Inl UnicodeEncodeError, w)
         | Some bytes \<Rightarrow>
             (let (r, w1) = invoke SmaractDll (SA_OpenSystem bytes options) w
              in if status r \<noteq> 0 then (Inl (Exception ''SmarAct SA_OpenSystem failed''), w1)
                 else (Inr (ulong_value (out_value r)), w1)))"

text \<open>\<open>__init__\<close>: the constructor; an exception of either call leaves no object.\<close>

definition init ::
  "('t, 'l::len word) dll \<Rightarrow> ('t, 'l word) world \<Rightarrow> (exn + smaract) \<times> ('t, 'l word) world" where
  "init SmaractDll w =
     (case get_controller_locator SmaractDll w of
        (Inl e, w1) \<Rightarrow> (Inl e, w1)
      | (Inr locator, w1) \<Rightarrow>
          (case init_communication SmaractDll locator w1 of
             (Inl e, w2) \<Rightarrow> (Inl e, w2)
           | (Inr index, w2) \<Rightarrow>
               (Inr \<lparr>controller_locator = locator, system_index = index\<rparr>, w2)))"

definition close_communication ::
  "('t, 'l::len word) dll \<Rightarrow> smaract \<Rightarrow> ('t, 'l word) world
     \<Rightarrow> (exn + unit) \<times> smaract \<times> ('t, 'l word) world" where
  "close_communication SmaractDll self w =
     (let (r, w1) = invoke SmaractDll (SA_CloseSystem (c_ulong (system_index self))) w
      in if status r \<noteq> 0 then (Inl (Exception ''SmarAct SA_CloseSystem failed''), self, w1)
         else (Inr (), self, w1))"

text \<open>
  The error path of the six methods below is the two statements
  \<open>self.close_communication()\<close> and \<open>raise Exception(message)\<close>: an exception of
  the close leaves the method before its own \<open>raise\<close> is reached.
\<close>

definition close_then_raise ::
  "('t, 'l::len word) dll \<Rightarrow> smaract \<Rightarrow> ('t, 'l word) world \<Rightarrow> string
     \<Rightarrow> (exn + 'a) \<times> smaract \<times> ('t, 'l word) world" where
  "close_then_raise SmaractDll self w message =
     (case close_communication SmaractDll self w of
        (Inl e, self2, w2) \<Rightarrow> (Inl e, self2, w2)
      | (Inr _, self2, w2) \<Rightarrow> (Inl (Exception message), self2, w2))"

definition get_number_of_channels ::
  "('t, 'l::len word) dll \<Rightarrow> smaract \<Rightarrow> ('t, 'l word) world
     \<Rightarrow> (exn + int) \<times> smaract \<times> ('t, 'l word) world" where
  "get_number_of_channels SmaractDll self w =
     (let (r, w1) = invoke SmaractDll (SA_GetNumberOfChannels (c_ulong (system_index self))) w
      in if status r \<noteq> 0 then
           close_then_raise SmaractDll self w1 ''SmarAct SA_GetNumberOfChannels failed''
         else (Inr (ulong_value (out_value r)), self, w1))"

definition get_position ::
  "('t, 'l::len word) dll \<Rightarrow> smaract \<Rightarrow> int \<Rightarrow> ('t, 'l word) world
     \<Rightarrow> (exn + int) \<times> smaract \<times> ('t, 'l word) world" where
  "get_position SmaractDll self channel_index w =
     (let (r, w1) = invoke SmaractDll
            (SA_GetPosition_S (c_ulong (system_index self)) (c_ulong channel_index)) w
      in if status r \<noteq> 0 then
           close_then_raise SmaractDll self w1 ''SmarAct SA_GetPosition failed''
         else (Inr (long_value (out_value r)), self, w1))"

definition find_reference ::
  "('t, 'l::len word) dll \<Rightarrow> smaract \<Rightarrow> int \<Rightarrow> ('t, 'l word) world
     \<Rightarrow> (exn + unit) \<times> smaract \<times> ('t, 'l word) world" where
  "find_reference SmaractDll self channel_index w =
     (let direction = 0;
          hold_time = 60000;
          auto_zero = 1;
          (r, w1) = invoke SmaractDll
            (SA_FindReferenceMark_S (c_ulong (system_index self)) (c_ulong channel_index)
               (c_ulong direction) (c_ulong hold_time) (c_ulong auto_zero)) w
      in if status r \<noteq> 0 then
           close_then_raise SmaractDll self w1 ''SmarAct SA_FindReferenceMark failed''
         else (Inr (), self, print ''The positionner is referenced !'' w1))"

definition relative_move ::
  "('t, 'l::len word) dll \<Rightarrow> smaract \<Rightarrow> int \<Rightarrow> int \<Rightarrow> ('t, 'l word) world
     \<Rightarrow> (exn + unit) \<times> smaract \<times> ('t, 'l word) world" where
  "relative_move SmaractDll self channel_index relative_position w =
     (let hold_time = 60000;
          (r, w1) = invoke SmaractDll
            (SA_GotoPositionRelative_S (c_ulong (system_index self)) (c_ulong channel_index)
               (c_long relative_position) (c_ulong hold_time)) w
      in if status r \<noteq> 0 then
           close_then_raise SmaractDll self w1 ''SmarAct SA_GotoPositionRelative failed''
         else (Inr (), self, w1))"

definition absolute_move ::
  "('t, 'l::len word) dll \<Rightarrow> smaract \<Rightarrow> int \<Rightarrow> int \<Rightarrow> ('t, 'l word) world
     \<Rightarrow> (exn + unit) \<times> smaract \<times> ('t, 'l word) world" where
  "absolute_move SmaractDll self channel_index absolute_position w =
     (let hold_time = 60000;
          (r, w1) = invoke SmaractDll
            (SA_GotoPositionAbsolute_S (c_ulong (system_index self)) (c_ulong channel_index)
               (c_long absolute_position) (c_ulong hold_time)) w
      in if status r \<noteq> 0 then
           close_then_raise SmaractDll self w1 ''SmarAct SA_GotoPositionAbsolute failed''
         else (Inr (), self, w1))"

definition stop ::
  "('t, 'l::len word) dll \<Rightarrow> smaract \<Rightarrow> int \<Rightarrow> ('t, 'l word) world
     \<Rightarrow> (exn + unit) \<times> smaract \<times> ('t, 'l word) world" where
  "stop SmaractDll self channel_index w =
     (let (r, w1) = invoke SmaractDll
            (SA_Stop_S (c_ulong (system_index self)) (c_ulong channel_index)) w
      in if status r \<noteq> 0 then
           close_then_raise SmaractDll self w1 ''SmarAct SA_Stop failed''
         else (Inr (), self, w1))"

abbreviation result_of :: "'a \<times> 'b \<Rightarrow> 'a" where
  "result_of x \<equiv> fst x"

abbreviation object_of :: "'a \<times> 'b \<times> 'c \<Rightarrow> 'b" where
  "object_of x \<equiv> fst (snd x)"

abbreviation world_of :: "'a \<times> 'b \<times> 'c \<Rightarrow> 'c" where
  "world_of x \<equiv> snd (snd x)"

text \<open>The reply of the library to a call issued in world \<open>w\<close>.\<close>

definition reply_to :: "('t, 'w) dll \<Rightarrow> ('t, 'w) world \<Rightarrow> 'w call \<Rightarrow> 'w reply" where
  "reply_to SmaractDll w c = fst (SmaractDll (dll_state w) c)"

subsection \<open>Locators in the buffer\<close>

text \<open>
  The locator format stated on the bytes of the buffer, apart from the regular expression
  of the code: a locator is the tag followed by exactly ten decimal digits, and the buffer
  has one at offset \<open>i\<close> when the 17 bytes from \<open>i\<close> on are a locator.
\<close>

definition is_locator :: "char list \<Rightarrow> bool" where
  "is_locator m =
     (length m = 17 \<and> take 7 m = ''usb:id:'' \<and> list_all (\<lambda>c. c \<in> set ''0123456789'') (drop 7 m))"

definition locator_at :: "char list \<Rightarrow> nat \<Rightarrow> bool" where
  "locator_at buf i = is_locator (take 17 (drop i buf))"

subsection \<open>Transports for testing\<close>

text \<open>
  A scripted library: its state is the list of replies it still has to give, one per call
  whatever the call is; once the script is used up every call succeeds and writes nothing.
\<close>

definition answer :: "int \<Rightarrow> 'l::len word reply" where
  "answer st = \<lparr>status = st, out_value = 0, out_list = []\<rparr>"

definition scripted :: "('l::len word reply list, 'l word) dll" where
  "scripted script c = (case script of [] \<Rightarrow> (answer 0, []) | r # rs \<Rightarrow> (r, rs))"

text \<open>The reply to a successful enumeration that left \<open>buf\<close> in the buffer.\<close>

definition listing :: "char list \<Rightarrow> 'l::len word reply" where
  "listing buf = \<lparr>status = 0, out_value = 0, out_list = buf\<rparr>"

definition fresh :: "'t \<Rightarrow> ('t, 'w) world" where
  "fresh t = \<lparr>dll_state = t, calls = [], stdout = []\<rparr>"

text \<open>An object as \<open>__init__\<close> leaves it, with the system index 3.\<close>

definition controller :: smaract where
  "controller = \<lparr>controller_locator = str ''usb:id:3118167233'', system_index = 3\<rparr>"

text \<open>
  The script of a session: the enumeration finds one controller, the open succeeds with
  system index 3, and the next call fails with status 17.
\<close>

definition session_script :: "32 word reply list" where
  "session_script =
     [\<lparr>status = 0, out_value = 0, out_list = ''usb:id:3118167233''\<rparr>,
      \<lparr>status = 0, out_value = 3, out_list = []\<rparr>,
      answer 17]"

text \<open>
  Modelled from the spec: the "idealized transport that perfectly executes motion" of the
  motion-consistency property. The library itself is not part of the repository. Its state
  is the number of channels and the position of each channel, both of the width of a C
  \<open>long\<close>; a motion command on an existing channel takes effect at once and in full
  (a relative move adds to the position, an absolute move sets it, a reference search with
  auto-zero resets it to zero), a position query on an existing channel returns the
  position, a command on a channel that does not exist fails with status 1, and every
  other call succeeds.
\<close>

record 'w ideal =
  n_channels :: 'w
  positions :: "'w \<Rightarrow> 'w"

fun ideal_dll :: "('l::len word ideal, 'l word) dll" where
  "ideal_dll t (SA_GetNumberOfChannels system) =
     (\<lparr>status = 0, out_value = n_channels t, out_list = []\<rparr>, t)"
| "ideal_dll t (SA_GetPosition_S system channel) =
     (if channel < n_channels t
      then (\<lparr>status = 0, out_value = positions t channel, out_list = []\<rparr>, t)
      else (answer 1, t))"
| "ideal_dll t (SA_GotoPositionRelative_S system channel diff hold) =
     (if channel < n_channels t
      then (answer 0, t\<lparr>positions := (positions t)(channel := positions t channel + diff)\<rparr>)
      else (answer 1, t))"
| "ideal_dll t (SA_GotoPositionAbsolute_S system channel target hold) =
     (if channel < n_channels t
      then (answer 0, t\<lparr>positions := (positions t)(channel := target)\<rparr>)
      else (answer 1, t))"
| "ideal_dll t (SA_FindReferenceMark_S system channel direction hold auto_zero) =
     (if channel < n_channels t
      then (answer 0,
            if auto_zero = 1 then t\<lparr>positions := (positions t)(channel := 0)\<rparr> else t)
      else (answer 1, t))"
| "ideal_dll t c = (answer 0, t)"

text \<open>A 32-bit bench with three channels: channel 0 at 1000, channel 1 at 2147483647.\<close>

definition bench :: "32 word ideal" where
  "bench = \<lparr>n_channels = 3, positions = (\<lambda>_. 0)(0 := 1000, 1 := 2147483647)\<rparr>"

section \<open>What a call to the library does to the world\<close>

lemma invoke_eq:
  "invoke dll c w =
     (reply_to dll w c, w\<lparr>dll_state := snd (dll (dll_state w) c), calls := calls w @ [c]\<rparr>)"
  by (simp add: invoke_def reply_to_def split_beta)

lemma calls_invoke: "calls (snd (invoke dll c w)) = calls w @ [c]"
  by (simp add: invoke_eq)

lemma fst_invoke: "fst (invoke dll c w) = reply_to dll w c"
  by (simp add: invoke_eq)

lemma calls_print: "calls (print l w) = calls w"
  by (simp add: print_def)

lemma close_communication_eq:
  "close_communication dll self w =
     (if status (reply_to dll w (SA_CloseSystem (c_ulong (system_index self)))) \<noteq> 0
      then Inl (Exception ''SmarAct SA_CloseSystem failed'') else Inr (),
      self, snd (invoke dll (SA_CloseSystem (c_ulong (system_index self))) w))"
  by (simp add: close_communication_def split_beta fst_invoke)

lemma close_then_raise_eq:
  "close_then_raise dll self w msg =
     (if status (reply_to dll w (SA_CloseSystem (c_ulong (system_index self)))) \<noteq> 0
      then Inl (Exception ''SmarAct SA_CloseSystem failed'') else Inl (Exception msg),
      self, snd (invoke dll (SA_CloseSystem (c_ulong (system_index self))) w))"
  by (simp add: close_then_raise_def close_communication_eq)

lemma calls_close_then_raise:
  "calls (world_of (close_then_raise dll self w msg)) =
     calls w @ [SA_CloseSystem (c_ulong (system_index self))]"
  by (simp add: close_then_raise_eq calls_invoke)

lemma object_close_then_raise: "object_of (close_then_raise dll self w msg) = self"
  by (simp add: close_then_raise_eq)

lemma isl_close_then_raise: "isl (result_of (close_then_raise dll self w msg))"
  by (simp add: close_then_raise_eq)

lemma result_close_then_raise:
  "result_of (close_then_raise dll self w msg) =
     Inl (Exception (if status (reply_to dll w (SA_CloseSystem (c_ulong (system_index self)))) = 0
                     then msg else ''SmarAct SA_CloseSystem failed''))"
  by (simp add: close_then_raise_eq)

lemma get_controller_locator_eq:
  "get_controller_locator dll w =
     (let c = SA_FindSystems c_char (replicate ioListSize CHR '' '') (c_ulong (int ioListSize));
          r = reply_to dll w c
      in (if status r \<noteq> 0 then Inl (Exception ''SmarAct SA_FindSystems error'')
          else case decode (out_list r) of
                 None \<Rightarrow> Inl UnicodeDecodeError
               | Some text \<Rightarrow>
                   (case findall_locator text of
                      [] \<Rightarrow> Inl (Exception ''No controller found'')
                    | m # _ \<Rightarrow> Inr m),
          snd (invoke dll c w)))"
  by (simp add: get_controller_locator_def Let_def split_beta fst_invoke split: option.splits list.splits)

lemma init_communication_eq:
  "init_communication dll locator w =
     (case encode_ascii locator of
        None \<Rightarrow> (Inl UnicodeEncodeError, w)
      | Some bytes \<Rightarrow>
          (if status (reply_to dll w (SA_OpenSystem bytes ''sync'')) \<noteq> 0
           then Inl (Exception ''SmarAct SA_OpenSystem failed'')
           else Inr (ulong_value (out_value (reply_to dll w (SA_OpenSystem bytes ''sync'')))),
           snd (invoke dll (SA_OpenSystem bytes ''sync'') w)))"
  by (simp add: init_communication_def Let_def split_beta fst_invoke split: option.splits)

text \<open>Each method as one conditional on the status of its own call.\<close>

lemma get_number_of_channels_eq:
  "get_number_of_channels dll self w =
     (let c = SA_GetNumberOfChannels (c_ulong (system_index self))
      in if status (reply_to dll w c) = 0
         then (Inr (ulong_value (out_value (reply_to dll w c))), self, snd (invoke dll c w))
         else close_then_raise dll self (snd (invoke dll c w))
                ''SmarAct SA_GetNumberOfChannels failed'')"
  by (simp add: get_number_of_channels_def split_beta Let_def fst_invoke)

lemma get_position_eq:
  "get_position dll self ch w =
     (let c = SA_GetPosition_S (c_ulong (system_index self)) (c_ulong ch)
      in if status (reply_to dll w c) = 0
         then (Inr (long_value (out_value (reply_to dll w c))), self, snd (invoke dll c w))
         else close_then_raise dll self (snd (invoke dll c w)) ''SmarAct SA_GetPosition failed'')"
  by (simp add: get_position_def split_beta Let_def fst_invoke)

lemma find_reference_eq:
  "find_reference dll self ch w =
     (let c = SA_FindReferenceMark_S (c_ulong (system_index self)) (c_ulong ch) 0 60000 1
      in if status (reply_to dll w c) = 0
         then (Inr (), self, print ''The positionner is referenced !'' (snd (invoke dll c w)))
         else close_then_raise dll self (snd (invoke dll c w))
                ''SmarAct SA_FindReferenceMark failed'')"
  by (simp add: find_reference_def split_beta Let_def fst_invoke c_ulong_def)

lemma relative_move_eq:
  "relative_move dll self ch v w =
     (let c = SA_GotoPositionRelative_S (c_ulong (system_index self)) (c_ulong ch) (c_long v) 60000
      in if status (reply_to dll w c) = 0 then (Inr (), self, snd (invoke dll c w))
         else close_then_raise dll self (snd (invoke dll c w))
                ''SmarAct SA_GotoPositionRelative failed'')"
  by (simp add: relative_move_def split_beta Let_def fst_invoke c_ulong_def)

lemma absolute_move_eq:
  "absolute_move dll self ch v w =
     (let c = SA_GotoPositionAbsolute_S (c_ulong (system_index self)) (c_ulong ch) (c_long v) 60000
      in if status (reply_to dll w c) = 0 then (Inr (), self, snd (invoke dll c w))
         else close_then_raise dll self (snd (invoke dll c w))
                ''SmarAct SA_GotoPositionAbsolute failed'')"
  by (simp add: absolute_move_def split_beta Let_def fst_invoke c_ulong_def)

lemma stop_eq:
  "stop dll self ch w =
     (let c = SA_Stop_S (c_ulong (system_index self)) (c_ulong ch)
      in if status (reply_to dll w c) = 0 then (Inr (), self, snd (invoke dll c w))
         else close_then_raise dll self (snd (invoke dll c w)) ''SmarAct SA_Stop failed'')"
  by (simp add: stop_def split_beta Let_def fst_invoke)

lemmas method_eqs =
  get_number_of_channels_eq get_position_eq find_reference_eq relative_move_eq
  absolute_move_eq stop_eq

lemmas harness =
  reply_to_def scripted_def fresh_def answer_def controller_def c_ulong_def c_long_def
  invoke_def print_def

text \<open>The test locator through the decoder, the pattern and the encoder.\<close>

lemma encode_tag: "encode_ascii (str ''usb:id:3118167233'') = Some ''usb:id:3118167233''"
  by code_simp

lemma decode_tag: "decode ''usb:id:3118167233'' = Some (str ''usb:id:3118167233'')"
  by code_simp

lemma findall_tag: "findall_locator (str ''usb:id:3118167233'') = [str ''usb:id:3118167233'']"
  by code_simp

lemma init_session:
  "result_of (init scripted (fresh session_script)) = Inr controller \<and>
   dll_state (snd (init scripted (fresh session_script))) = [answer 17]"
  by (simp add: init_def get_controller_locator_eq init_communication_eq Let_def decode_tag
      findall_tag encode_tag session_script_def reply_to_def scripted_def fresh_def invoke_def
      controller_def ulong_value_def)

section \<open>The pattern on the decoded text and on the bytes\<close>

lemma findall_Nil: "findall_locator [] = []"
  by (simp add: findall_locator.simps)

lemma findall_match:
  "match_locator s = Some m \<Longrightarrow> findall_locator s = m # findall_locator (drop 17 s)"
  by (subst findall_locator.simps) (auto simp: match_locator_def split: if_splits)

lemma findall_no_match:
  "match_locator s = None \<Longrightarrow> findall_locator s = findall_locator (tl s)"
  by (subst findall_locator.simps) (simp add: findall_Nil)

lemma match_locator_length: "match_locator s = Some m \<Longrightarrow> 17 \<le> length s \<and> m = take 17 s"
  by (auto simp: match_locator_def split: if_splits)

lemma findall_first:
  "match_locator (drop i s) = Some m \<Longrightarrow> (\<forall>j<i. match_locator (drop j s) = None)
     \<Longrightarrow> \<exists>rest. findall_locator s = m # rest"
proof (induction i arbitrary: s)
  case 0
  then show ?case by (simp add: findall_match)
next
  case (Suc i)
  from Suc.prems(2) have none: "match_locator s = None" by force
  from Suc.prems(1) have "s \<noteq> []" by (auto simp: match_locator_def split: if_splits)
  then obtain x xs where s: "s = x # xs" by (cases s) auto
  have "match_locator (drop i xs) = Some m" using Suc.prems(1) s by simp
  moreover have "\<forall>j<i. match_locator (drop j xs) = None"
  proof (intro allI impI)
    fix j assume "j < i"
    then have "match_locator (drop (Suc j) s) = None" using Suc.prems(2) by simp
    then show "match_locator (drop j xs) = None" using s by simp
  qed
  ultimately obtain rest where "findall_locator xs = m # rest" using Suc.IH by blast
  then show ?case using none s by (simp add: findall_no_match)
qed

lemma findall_none:
  "(\<forall>i. match_locator (drop i s) = None) \<Longrightarrow> findall_locator s = []"
proof (induction s)
  case Nil
  then show ?case by (simp add: findall_Nil)
next
  case (Cons x xs)
  have "match_locator (x # xs) = None" using Cons.prems [rule_format, of 0] by simp
  moreover have "\<forall>i. match_locator (drop i xs) = None"
  proof
    fix i show "match_locator (drop i xs) = None"
      using Cons.prems [rule_format, of "Suc i"] by simp
  qed
  ultimately show ?case using Cons.IH by (simp add: findall_no_match)
qed

lemma utf8_two:
  assumes "194 \<le> b0" "b0 \<le> 223" "utf8 (b0 # bs) = Some t"
  shows "\<exists>b1 r t'. bs = b1 # r \<and> 128 \<le> b1 \<and> utf8 r = Some t' \<and>
           t = ((b0 - 192) * 64 + (b1 - 128)) # t'"
  using assms by (auto simp: cont_def split: list.splits if_splits)

lemma utf8_three:
  assumes "224 \<le> b0" "b0 \<le> 239" "utf8 (b0 # bs) = Some t"
  shows "\<exists>b1 b2 r t'. bs = b1 # b2 # r \<and> 128 \<le> b1 \<and> 128 \<le> b2 \<and> utf8 r = Some t' \<and>
           (b0 = 224 \<longrightarrow> 160 \<le> b1) \<and>
           t = ((b0 - 224) * 4096 + (b1 - 128) * 64 + (b2 - 128)) # t'"
  using assms by (auto simp: cont_def second_ok_def split: list.splits if_splits)

lemma utf8_four:
  assumes "240 \<le> b0" "b0 \<le> 244" "utf8 (b0 # bs) = Some t"
  shows "\<exists>b1 b2 b3 r t'. bs = b1 # b2 # b3 # r \<and> 128 \<le> b1 \<and> 128 \<le> b2 \<and> 128 \<le> b3 \<and>
           utf8 r = Some t' \<and> (b0 = 240 \<longrightarrow> 144 \<le> b1) \<and>
           t = ((b0 - 240) * 262144 + (b1 - 128) * 4096 + (b2 - 128) * 64 + (b3 - 128)) # t'"
  using assms by (auto simp: cont_def second_ok_def split: list.splits if_splits)

lemma utf8_lead:
  assumes "utf8 (b0 # bs) = Some t" "128 \<le> b0"
  shows "(194 \<le> b0 \<and> b0 \<le> 223) \<or> (224 \<le> b0 \<and> b0 \<le> 239) \<or> (240 \<le> b0 \<and> b0 \<le> 244)"
  using assms by (auto split: if_splits)

lemma utf8_Cons:
  assumes "utf8 (b0 # bs) = Some t"
  shows "(b0 < 128 \<and> (\<exists>t'. t = b0 # t' \<and> utf8 bs = Some t')) \<or>
         (128 \<le> b0 \<and> (\<exists>cp t' k. 128 \<le> cp \<and> t = cp # t' \<and> k \<le> length bs \<and>
            list_all (\<lambda>b. 128 \<le> b) (take k bs) \<and> utf8 (drop k bs) = Some t'))"
proof (cases "b0 < 128")
  case True
  then show ?thesis using assms by auto
next
  case False
  then have hi: "128 \<le> b0" by simp
  from utf8_lead [OF assms hi] consider
    (two) "194 \<le> b0" "b0 \<le> 223" | (three) "224 \<le> b0" "b0 \<le> 239" | (four) "240 \<le> b0" "b0 \<le> 244"
    by blast
  then have "\<exists>cp t' k. 128 \<le> cp \<and> t = cp # t' \<and> k \<le> length bs \<and>
            list_all (\<lambda>b. 128 \<le> b) (take k bs) \<and> utf8 (drop k bs) = Some t'"
  proof cases
    case two
    from utf8_two [OF two assms] obtain b1 r t' where
      h: "bs = b1 # r" "128 \<le> b1" "utf8 r = Some t'" "t = ((b0 - 192) * 64 + (b1 - 128)) # t'"
      by blast
    have "128 \<le> (b0 - 192) * 64 + (b1 - 128)" using two by simp
    with h show ?thesis
      by (intro exI [of _ "(b0 - 192) * 64 + (b1 - 128)"] exI [of _ t'] exI [of _ 1]) simp
  next
    case three
    from utf8_three [OF three assms] obtain b1 b2 r t' where
      h: "bs = b1 # b2 # r" "128 \<le> b1" "128 \<le> b2" "utf8 r = Some t'" "b0 = 224 \<longrightarrow> 160 \<le> b1"
        "t = ((b0 - 224) * 4096 + (b1 - 128) * 64 + (b2 - 128)) # t'"
      by blast
    have "128 \<le> (b0 - 224) * 4096 + (b1 - 128) * 64 + (b2 - 128)"
      using three h(5) by (cases "b0 = 224") simp_all
    with h show ?thesis
      by (intro exI [of _ "(b0 - 224) * 4096 + (b1 - 128) * 64 + (b2 - 128)"]
          exI [of _ t'] exI [of _ 2]) simp
  next
    case four
    from utf8_four [OF four assms] obtain b1 b2 b3 r t' where
      h: "bs = b1 # b2 # b3 # r" "128 \<le> b1" "128 \<le> b2" "128 \<le> b3" "utf8 r = Some t'"
        "b0 = 240 \<longrightarrow> 144 \<le> b1"
        "t = ((b0 - 240) * 262144 + (b1 - 128) * 4096 + (b2 - 128) * 64 + (b3 - 128)) # t'"
      by blast
    have "128 \<le> (b0 - 240) * 262144 + (b1 - 128) * 4096 + (b2 - 128) * 64 + (b3 - 128)"
      using four h(6) by (cases "b0 = 240") simp_all
    with h show ?thesis
      by (intro exI [of _ "(b0 - 240) * 262144 + (b1 - 128) * 4096 + (b2 - 128) * 64 + (b3 - 128)"]
          exI [of _ t'] exI [of _ 3]) simp
  qed
  with hi show ?thesis by blast
qed

lemma utf8_ascii_prefix:
  "utf8 bs = Some t \<Longrightarrow> n \<le> length bs \<Longrightarrow> list_all (\<lambda>c. c < 128) (take n bs)
     \<Longrightarrow> take n t = take n bs \<and> n \<le> length t \<and> utf8 (drop n bs) = Some (drop n t)"
proof (induction n arbitrary: bs t)
  case 0
  then show ?case by simp
next
  case (Suc n)
  then obtain b bs' where bs: "bs = b # bs'" by (cases bs) auto
  with Suc.prems have b: "b < 128" by simp
  with Suc.prems(1) bs obtain t' where t: "t = b # t'" "utf8 bs' = Some t'" by auto
  from Suc.IH [OF t(2)] Suc.prems bs t show ?case by simp
qed

lemma utf8_ascii_prefix_rev:
  "utf8 bs = Some t \<Longrightarrow> n \<le> length t \<Longrightarrow> list_all (\<lambda>c. c < 128) (take n t)
     \<Longrightarrow> take n bs = take n t \<and> n \<le> length bs"
proof (induction n arbitrary: bs t)
  case 0
  then show ?case by simp
next
  case (Suc n)
  then obtain c t' where t: "t = c # t'" by (cases t) auto
  with Suc.prems have c: "c < 128" by simp
  from Suc.prems(1) t obtain b bs' where bs: "bs = b # bs'" by (cases bs) auto
  from utf8_Cons [of b bs' t] Suc.prems(1) bs t c have "b = c" "utf8 bs' = Some t'" by auto
  with Suc.IH [of bs' t'] Suc.prems bs t show ?case by simp
qed

lemma match_locator_ascii:
  assumes "match_locator s = Some m"
  shows "list_all (\<lambda>c. c < 128) (take 17 s)"
proof -
  from assms have len: "17 \<le> length s" and tag: "take 7 s = str ''usb:id:''"
    and dig: "list_all is_digit (take 10 (drop 7 s))"
    by (auto simp: match_locator_def split: if_splits)
  have split: "take 17 s = take 7 s @ take 10 (drop 7 s)"
    by (simp add: take_add [of 7 10 s, simplified])
  have "list_all (\<lambda>c. c < 128) (take 7 s)" unfolding tag by (simp add: str_def)
  moreover have "list_all (\<lambda>c. c < 128) (take 10 (drop 7 s))"
    using dig by (auto simp: list_all_iff is_digit_def)
  ultimately show ?thesis unfolding split by simp
qed

lemma match_locator_cong:
  assumes "take 17 s = take 17 s'" "17 \<le> length s" "17 \<le> length s'"
  shows "match_locator s = match_locator s'"
proof -
  have tag: "take 7 s = take 7 s'"
    using arg_cong [OF assms(1), of "take 7"] by simp
  have digits: "take 10 (drop 7 s) = take 10 (drop 7 s')"
    using arg_cong [OF assms(1), of "drop 7"] by (simp add: drop_take)
  show ?thesis
    unfolding match_locator_def tag digits assms(1) using assms(2,3) by simp
qed

lemma match_locator_high: "128 \<le> x \<Longrightarrow> match_locator (x # xs) = None"
  by (auto simp: match_locator_def str_def)

lemma findall_skip_high:
  "k \<le> length bs \<Longrightarrow> list_all (\<lambda>b. 128 \<le> b) (take k bs)
     \<Longrightarrow> findall_locator bs = findall_locator (drop k bs)"
proof (induction k arbitrary: bs)
  case 0
  then show ?case by simp
next
  case (Suc k)
  then obtain b bs' where bs: "bs = b # bs'" by (cases bs) auto
  with Suc.prems have "128 \<le> b" by simp
  then have "findall_locator bs = findall_locator bs'"
    using bs by (simp add: findall_no_match match_locator_high)
  with Suc.IH [of bs'] Suc.prems bs show ?case by simp
qed

lemma findall_utf8: "utf8 bs = Some t \<Longrightarrow> findall_locator t = findall_locator bs"
proof (induction bs arbitrary: t rule: length_induct)
  case (1 bs)
  show ?case
  proof (cases bs)
    case Nil
    with "1.prems" show ?thesis by simp
  next
    case (Cons b0 bs')
    show ?thesis
    proof (cases "match_locator bs")
      case (Some m)
      then have len: "17 \<le> length bs" and m: "m = take 17 bs"
        using match_locator_length by blast+
      from utf8_ascii_prefix [OF "1.prems" len match_locator_ascii [OF Some]]
      have pre: "take 17 t = take 17 bs" "17 \<le> length t"
        "utf8 (drop 17 bs) = Some (drop 17 t)" by simp_all
      have mt: "match_locator t = Some m"
        using match_locator_cong [OF pre(1) pre(2) len] Some by simp
      have "length (drop 17 bs) < length bs" using len by simp
      with "1.IH" pre(3) have "findall_locator (drop 17 t) = findall_locator (drop 17 bs)"
        by blast
      then show ?thesis by (simp add: findall_match [OF Some] findall_match [OF mt])
    next
      case None
      from utf8_Cons [of b0 bs' t] "1.prems" Cons consider
        (ascii) t' where "b0 < 128" "t = b0 # t'" "utf8 bs' = Some t'"
        | (high) cp t' k where "128 \<le> b0" "128 \<le> cp" "t = cp # t'" "k \<le> length bs'"
            "list_all (\<lambda>b. 128 \<le> b) (take k bs')" "utf8 (drop k bs') = Some t'"
        by blast
      then show ?thesis
      proof cases
        case ascii
        have "match_locator t = None"
        proof (rule ccontr)
          assume "match_locator t \<noteq> None"
          then obtain m where mt: "match_locator t = Some m" by auto
          then have lt: "17 \<le> length t" using match_locator_length by blast
          from utf8_ascii_prefix_rev [OF "1.prems" lt match_locator_ascii [OF mt]]
          have "take 17 bs = take 17 t" "17 \<le> length bs" by simp_all
          from match_locator_cong [OF this(1) this(2) lt] None mt show False by simp
        qed
        moreover have "findall_locator t' = findall_locator bs'"
          using "1.IH" ascii(3) Cons by simp
        ultimately show ?thesis
          using None Cons ascii(2) by (simp add: findall_no_match)
      next
        case high
        have "findall_locator t = findall_locator t'"
          using high(2,3) by (simp add: findall_no_match match_locator_high)
        moreover have "findall_locator bs = findall_locator bs'"
          using high(1) Cons by (simp add: findall_no_match match_locator_high)
        moreover have "findall_locator bs' = findall_locator (drop k bs')"
          using findall_skip_high [OF high(4,5)] .
        moreover have "findall_locator t' = findall_locator (drop k bs')"
          using "1.IH" high(6) Cons by simp
        ultimately show ?thesis by simp
      qed
    qed
  qed
qed

lemma char_of_digits:
  "char_of (48 :: nat) = CHR ''0''" "char_of (49 :: nat) = CHR ''1''"
  "char_of (50 :: nat) = CHR ''2''" "char_of (51 :: nat) = CHR ''3''"
  "char_of (52 :: nat) = CHR ''4''" "char_of (53 :: nat) = CHR ''5''"
  "char_of (54 :: nat) = CHR ''6''" "char_of (55 :: nat) = CHR ''7''"
  "char_of (56 :: nat) = CHR ''8''" "char_of (57 :: nat) = CHR ''9''"
  by code_simp+

lemma is_digit_of_char: "is_digit (of_char c) \<longleftrightarrow> c \<in> set ''0123456789''"
proof
  assume d: "is_digit (of_char c)"
  define n :: nat where "n = of_char c"
  have c: "c = char_of n" by (simp add: n_def)
  from d have "n = 48 \<or> n = 49 \<or> n = 50 \<or> n = 51 \<or> n = 52 \<or> n = 53 \<or> n = 54 \<or> n = 55 \<or>
      n = 56 \<or> n = 57"
    unfolding is_digit_def n_def [symmetric] by arith
  then show "c \<in> set ''0123456789''"
    unfolding c by (elim disjE) (simp_all add: char_of_digits)
next
  assume "c \<in> set ''0123456789''"
  then show "is_digit (of_char c)" by (auto simp: is_digit_def)
qed

lemma match_locator_bytes:
  "match_locator (map of_char cs) =
     (if is_locator (take 17 cs) then Some (str (take 17 cs)) else None)"
proof -
  have len: "17 \<le> length (map of_char cs :: nat list) \<longleftrightarrow> length (take 17 cs) = 17"
    by auto
  have "take 7 (map of_char cs) = str ''usb:id:'' \<longleftrightarrow> map of_char (take 7 cs) = (map of_char ''usb:id:'' :: nat list)"
    by (simp only: take_map str_def)
  also have "\<dots> \<longleftrightarrow> take 7 cs = ''usb:id:''"
    by (rule inj_map_eq_map) (simp add: inj_def)
  finally have tag: "take 7 (map of_char cs) = str ''usb:id:'' \<longleftrightarrow> take 7 (take 17 cs) = ''usb:id:''"
    by simp
  have dig: "list_all is_digit (take 10 (drop 7 (map of_char cs))) \<longleftrightarrow>
      list_all (\<lambda>c. c \<in> set ''0123456789'') (drop 7 (take 17 cs))"
    by (simp only: drop_map take_map list_all_iff drop_take is_digit_of_char [symmetric]) auto
  show ?thesis
    unfolding match_locator_def len tag dig is_locator_def by (simp add: take_map str_def)
qed

lemma match_locator_at:
  "match_locator (drop i (map of_char buf)) =
     (if locator_at buf i then Some (str (take 17 (drop i buf))) else None)"
  by (simp add: drop_map match_locator_bytes locator_at_def)

lemma findall_bytes_none:
  assumes "\<forall>i. \<not> locator_at buf i"
  shows "findall_locator (map of_char buf) = []"
  by (rule findall_none) (simp add: match_locator_at assms)

lemma findall_bytes_first:
  assumes "locator_at buf i" "\<forall>j<i. \<not> locator_at buf j"
  shows "\<exists>rest. findall_locator (map of_char buf) = str (take 17 (drop i buf)) # rest"
  by (rule findall_first [of i]) (simp_all add: match_locator_at assms)

lemma decode_findall:
  "decode buf = Some t \<Longrightarrow> findall_locator t = findall_locator (map of_char buf)"
  by (simp add: decode_def findall_utf8)

lemma get_controller_locator_decoded:
  assumes "reply_to dll w
      (SA_FindSystems c_char (replicate ioListSize CHR '' '') (c_ulong (int ioListSize))) = r"
    and "status r = 0" and "decode (out_list r) \<noteq> None"
  shows "result_of (get_controller_locator dll w) =
      (case findall_locator (map of_char (out_list r)) of
         [] \<Rightarrow> Inl (Exception ''No controller found'')
       | m # _ \<Rightarrow> Inr m)"
proof -
  from assms(3) obtain t where t: "decode (out_list r) = Some t" by auto
  show ?thesis
    by (simp add: get_controller_locator_eq Let_def assms(1,2) t decode_findall [OF t])
qed

lemma init_no_locator:
  assumes "result_of (get_controller_locator dll w) = Inl e"
  shows "init dll w = (Inl e, snd (get_controller_locator dll w))"
  using assms by (cases "get_controller_locator dll w") (simp add: init_def)

lemma calls_get_controller_locator:
  "calls (snd (get_controller_locator dll w)) =
     calls w @ [SA_FindSystems c_char (replicate ioListSize CHR '' '') (c_ulong (int ioListSize))]"
  by (simp add: get_controller_locator_eq Let_def calls_invoke)

lemma get_controller_locator_none:
  assumes "reply_to dll w
      (SA_FindSystems c_char (replicate ioListSize CHR '' '') (c_ulong (int ioListSize))) = r"
    and "status r = 0" and "decode (out_list r) \<noteq> None"
    and none: "\<forall>i. \<not> locator_at (out_list r) i"
  shows "result_of (get_controller_locator dll w) = Inl (Exception ''No controller found'')"
  by (simp add: get_controller_locator_decoded [OF assms(1-3)] findall_bytes_none [OF none])

lemma get_controller_locator_first:
  assumes "reply_to dll w
      (SA_FindSystems c_char (replicate ioListSize CHR '' '') (c_ulong (int ioListSize))) = r"
    and "status r = 0" and "decode (out_list r) \<noteq> None"
    and first: "locator_at (out_list r) i" "\<forall>j<i. \<not> locator_at (out_list r) j"
  shows "result_of (get_controller_locator dll w) = Inr (str (take 17 (drop i (out_list r))))"
proof -
  obtain rest where
    "findall_locator (map of_char (out_list r)) = str (take 17 (drop i (out_list r))) # rest"
    using findall_bytes_first [OF first] by blast
  then show ?thesis by (simp add: get_controller_locator_decoded [OF assms(1-3)])
qed

section \<open>Closing the session on a failure\<close>

text \<open>
  C2. Each of the six methods that use the open session (\<open>get_number_of_channels\<close>,
  \<open>get_position\<close>, \<open>find_reference\<close>, \<open>relative_move\<close>, \<open>absolute_move\<close>,
  \<open>stop\<close>), when the library answers its call with a non-zero status, issues
  \<open>SA_CloseSystem\<close> for the stored system index right after the failed call and before
  it returns, and what it returns is an exception.
\<close>

theorem implicit_close_on_failure:
  "(status (reply_to dll w (SA_GetNumberOfChannels (c_ulong (system_index self)))) \<noteq> 0 \<longrightarrow>
      calls (world_of (get_number_of_channels dll self w)) =
        calls w @ [SA_GetNumberOfChannels (c_ulong (system_index self)),
                   SA_CloseSystem (c_ulong (system_index self))] \<and>
      isl (result_of (get_number_of_channels dll self w))) \<and>
   (status (reply_to dll w (SA_GetPosition_S (c_ulong (system_index self)) (c_ulong ch))) \<noteq> 0 \<longrightarrow>
      calls (world_of (get_position dll self ch w)) =
        calls w @ [SA_GetPosition_S (c_ulong (system_index self)) (c_ulong ch),
                   SA_CloseSystem (c_ulong (system_index self))] \<and>
      isl (result_of (get_position dll self ch w))) \<and>
   (status (reply_to dll w
        (SA_FindReferenceMark_S (c_ulong (system_index self)) (c_ulong ch) 0 60000 1)) \<noteq> 0 \<longrightarrow>
      calls (world_of (find_reference dll self ch w)) =
        calls w @ [SA_FindReferenceMark_S (c_ulong (system_index self)) (c_ulong ch) 0 60000 1,
                   SA_CloseSystem (c_ulong (system_index self))] \<and>
      isl (result_of (find_reference dll self ch w))) \<and>
   (status (reply_to dll w
        (SA_GotoPositionRelative_S (c_ulong (system_index self)) (c_ulong ch) (c_long v) 60000))
      \<noteq> 0 \<longrightarrow>
      calls (world_of (relative_move dll self ch v w)) =
        calls w @
          [SA_GotoPositionRelative_S (c_ulong (system_index self)) (c_ulong ch) (c_long v) 60000,
           SA_CloseSystem (c_ulong (system_index self))] \<and>
      isl (result_of (relative_move dll self ch v w))) \<and>
   (status (reply_to dll w
        (SA_GotoPositionAbsolute_S (c_ulong (system_index self)) (c_ulong ch) (c_long v) 60000))
      \<noteq> 0 \<longrightarrow>
      calls (world_of (absolute_move dll self ch v w)) =
        calls w @
          [SA_GotoPositionAbsolute_S (c_ulong (system_index self)) (c_ulong ch) (c_long v) 60000,
           SA_CloseSystem (c_ulong (system_index self))] \<and>
      isl (result_of (absolute_move dll self ch v w))) \<and>
   (status (reply_to dll w (SA_Stop_S (c_ulong (system_index self)) (c_ulong ch))) \<noteq> 0 \<longrightarrow>
      calls (world_of (stop dll self ch w)) =
        calls w @ [SA_Stop_S (c_ulong (system_index self)) (c_ulong ch),
                   SA_CloseSystem (c_ulong (system_index self))] \<and>
      isl (result_of (stop dll self ch w)))"
  by (simp add: method_eqs Let_def calls_close_then_raise calls_invoke isl_close_then_raise)

text \<open>
  All six at once: the library answers the first call with status 17 and the close with 0.
\<close>

theorem implicit_close_on_failure_witness:
  "status (reply_to scripted (fresh [answer 17]) (SA_Stop_S (3 :: 32 word) 2)) = 17 \<and>
   calls (world_of (get_number_of_channels scripted controller (fresh [answer 17]))) =
     [SA_GetNumberOfChannels (3 :: 32 word), SA_CloseSystem 3] \<and>
   calls (world_of (get_position scripted controller 2 (fresh [answer 17]))) =
     [SA_GetPosition_S (3 :: 32 word) 2, SA_CloseSystem 3] \<and>
   calls (world_of (find_reference scripted controller 2 (fresh [answer 17]))) =
     [SA_FindReferenceMark_S (3 :: 32 word) 2 0 60000 1, SA_CloseSystem 3] \<and>
   calls (world_of (relative_move scripted controller 2 (- 500) (fresh [answer 17]))) =
     [SA_GotoPositionRelative_S (3 :: 32 word) 2 (- 500) 60000, SA_CloseSystem 3] \<and>
   calls (world_of (absolute_move scripted controller 2 (- 500) (fresh [answer 17]))) =
     [SA_GotoPositionAbsolute_S (3 :: 32 word) 2 (- 500) 60000, SA_CloseSystem 3] \<and>
   calls (world_of (stop scripted controller 2 (fresh [answer 17]))) =
     [SA_Stop_S (3 :: 32 word) 2, SA_CloseSystem 3] \<and>
   isl (result_of (stop scripted controller 2 (fresh [answer 17 :: 32 word reply])))"
  using implicit_close_on_failure
    [of scripted "fresh [answer 17 :: 32 word reply]" controller 2 "- 500"]
  by (simp add: harness)

section \<open>What a failure looks like to the caller\<close>

text \<open>
  C1 does not hold as stated: the exception raised carries no status code. \<open>stop\<close> on
  channel 2 raises the same \<open>Exception('SmarAct SA_Stop failed')\<close> whether the library
  answered 17 or 18.
\<close>

theorem stop_status_not_carried_counterexample:
  "result_of (stop scripted controller 2 (fresh [answer 17 :: 32 word reply])) =
     Inl (Exception ''SmarAct SA_Stop failed'') \<and>
   result_of (stop scripted controller 2 (fresh [answer 18 :: 32 word reply])) =
     Inl (Exception ''SmarAct SA_Stop failed'')"
  by (simp add: stop_eq result_close_then_raise harness)

text \<open>
  C1, amended. For each of the nine operations, a non-zero status of its call to the
  library always surfaces as an exception: a plain \<open>Exception\<close> whose only content is a
  fixed message naming the library function that failed. For the six methods that close
  the session on failure, that is the method's own function when the close returns zero,
  and \<open>SA_CloseSystem\<close> when the close returns non-zero too. The status code is in no
  case part of it.
\<close>

theorem failure_is_exception_with_fixed_message:
  "(status (reply_to dll w
       (SA_FindSystems c_char (replicate ioListSize CHR '' '') (c_ulong (int ioListSize)))) \<noteq> 0 \<longrightarrow>
      result_of (get_controller_locator dll w) = Inl (Exception ''SmarAct SA_FindSystems error'')) \<and>
   (encode_ascii locator = Some bytes \<and>
    status (reply_to dll w (SA_OpenSystem bytes ''sync'')) \<noteq> 0 \<longrightarrow>
      result_of (init_communication dll locator w) =
        Inl (Exception ''SmarAct SA_OpenSystem failed'')) \<and>
   (status (reply_to dll w (SA_CloseSystem (c_ulong (system_index self)))) \<noteq> 0 \<longrightarrow>
      result_of (close_communication dll self w) =
        Inl (Exception ''SmarAct SA_CloseSystem failed'')) \<and>
   (status (reply_to dll w (SA_GetNumberOfChannels (c_ulong (system_index self)))) \<noteq> 0 \<longrightarrow>
      result_of (get_number_of_channels dll self w) =
        Inl (Exception
          (if status (reply_to dll
                (snd (invoke dll (SA_GetNumberOfChannels (c_ulong (system_index self))) w))
                (SA_CloseSystem (c_ulong (system_index self)))) = 0
           then ''SmarAct SA_GetNumberOfChannels failed''
           else ''SmarAct SA_CloseSystem failed''))) \<and>
   (status (reply_to dll w (SA_GetPosition_S (c_ulong (system_index self)) (c_ulong ch))) \<noteq> 0 \<longrightarrow>
      result_of (get_position dll self ch w) =
        Inl (Exception
          (if status (reply_to dll
                (snd (invoke dll (SA_GetPosition_S (c_ulong (system_index self)) (c_ulong ch)) w))
                (SA_CloseSystem (c_ulong (system_index self)))) = 0
           then ''SmarAct SA_GetPosition failed''
           else ''SmarAct SA_CloseSystem failed''))) \<and>
   (status (reply_to dll w
       (SA_FindReferenceMark_S (c_ulong (system_index self)) (c_ulong ch) 0 60000 1)) \<noteq> 0 \<longrightarrow>
      result_of (find_reference dll self ch w) =
        Inl (Exception
          (if status (reply_to dll
                (snd (invoke dll
                   (SA_FindReferenceMark_S (c_ulong (system_index self)) (c_ulong ch) 0 60000 1) w))
                (SA_CloseSystem (c_ulong (system_index self)))) = 0
           then ''SmarAct SA_FindReferenceMark failed''
           else ''SmarAct SA_CloseSystem failed''))) \<and>
   (status (reply_to dll w
       (SA_GotoPositionRelative_S (c_ulong (system_index self)) (c_ulong ch) (c_long v) 60000))
      \<noteq> 0 \<longrightarrow>
      result_of (relative_move dll self ch v w) =
        Inl (Exception
          (if status (reply_to dll
                (snd (invoke dll
                   (SA_GotoPositionRelative_S (c_ulong (system_index self)) (c_ulong ch)
                      (c_long v) 60000) w))
                (SA_CloseSystem (c_ulong (system_index self)))) = 0
           then ''SmarAct SA_GotoPositionRelative failed''
           else ''SmarAct SA_CloseSystem failed''))) \<and>
   (status (reply_to dll w
       (SA_GotoPositionAbsolute_S (c_ulong (system_index self)) (c_ulong ch) (c_long v) 60000))
      \<noteq> 0 \<longrightarrow>
      result_of (absolute_move dll self ch v w) =
        Inl (Exception
          (if status (reply_to dll
                (snd (invoke dll
                   (SA_GotoPositionAbsolute_S (c_ulong (system_index self)) (c_ulong ch)
                      (c_long v) 60000) w))
                (SA_CloseSystem (c_ulong (system_index self)))) = 0
           then ''SmarAct SA_GotoPositionAbsolute failed''
           else ''SmarAct SA_CloseSystem failed''))) \<and>
   (status (reply_to dll w (SA_Stop_S (c_ulong (system_index self)) (c_ulong ch))) \<noteq> 0 \<longrightarrow>
      result_of (stop dll self ch w) =
        Inl (Exception
          (if status (reply_to dll
                (snd (invoke dll (SA_Stop_S (c_ulong (system_index self)) (c_ulong ch)) w))
                (SA_CloseSystem (c_ulong (system_index self)))) = 0
           then ''SmarAct SA_Stop failed''
           else ''SmarAct SA_CloseSystem failed'')))"
proof (intro conjI impI)
  assume "status (reply_to dll w
       (SA_FindSystems c_char (replicate ioListSize CHR '' '') (c_ulong (int ioListSize)))) \<noteq> 0"
  then show "result_of (get_controller_locator dll w) =
      Inl (Exception ''SmarAct SA_FindSystems error'')"
    by (simp add: get_controller_locator_eq Let_def)
next
  assume "encode_ascii locator = Some bytes \<and>
    status (reply_to dll w (SA_OpenSystem bytes ''sync'')) \<noteq> 0"
  then show "result_of (init_communication dll locator w) =
      Inl (Exception ''SmarAct SA_OpenSystem failed'')"
    by (simp add: init_communication_eq)
next
  assume "status (reply_to dll w (SA_CloseSystem (c_ulong (system_index self)))) \<noteq> 0"
  then show "result_of (close_communication dll self w) =
      Inl (Exception ''SmarAct SA_CloseSystem failed'')"
    by (simp add: close_communication_eq)
qed (simp_all add: method_eqs Let_def result_close_then_raise)

theorem failure_is_exception_with_fixed_message_witness:
  "result_of (get_controller_locator scripted (fresh [answer 17 :: 32 word reply])) =
     Inl (Exception ''SmarAct SA_FindSystems error'') \<and>
   result_of (init_communication scripted (str ''usb:id:3118167233'')
       (fresh [answer 17 :: 32 word reply])) =
     Inl (Exception ''SmarAct SA_OpenSystem failed'') \<and>
   result_of (close_communication scripted controller (fresh [answer 17 :: 32 word reply])) =
     Inl (Exception ''SmarAct SA_CloseSystem failed'') \<and>
   result_of (get_number_of_channels scripted controller (fresh [answer 17 :: 32 word reply])) =
     Inl (Exception ''SmarAct SA_GetNumberOfChannels failed'') \<and>
   result_of (get_position scripted controller 2 (fresh [answer 17 :: 32 word reply])) =
     Inl (Exception ''SmarAct SA_GetPosition failed'') \<and>
   result_of (find_reference scripted controller 2 (fresh [answer 17 :: 32 word reply])) =
     Inl (Exception ''SmarAct SA_FindReferenceMark failed'') \<and>
   result_of (relative_move scripted controller 2 (- 500) (fresh [answer 17 :: 32 word reply])) =
     Inl (Exception ''SmarAct SA_GotoPositionRelative failed'') \<and>
   result_of (absolute_move scripted controller 2 (- 500) (fresh [answer 17 :: 32 word reply])) =
     Inl (Exception ''SmarAct SA_GotoPositionAbsolute failed'') \<and>
   result_of (stop scripted controller 2 (fresh [answer 17 :: 32 word reply])) =
     Inl (Exception ''SmarAct SA_Stop failed'')"
  using failure_is_exception_with_fixed_message
    [of scripted "fresh [answer 17 :: 32 word reply]" "str ''usb:id:3118167233''"
      "''usb:id:3118167233''" controller 2 "- 500"]
  by (simp add: encode_tag harness)

text \<open>
  C3 does not hold as stated: when \<open>stop\<close> fails with status 17 and the close that follows
  fails with status 5, the caller gets the exception of the close alone, the very
  exception a direct \<open>close_communication\<close> failing with 5 raises.
\<close>

theorem close_failure_masks_cause_counterexample:
  "result_of (stop scripted controller 2 (fresh [answer 17 :: 32 word reply, answer 5])) =
     Inl (Exception ''SmarAct SA_CloseSystem failed'') \<and>
   result_of (stop scripted controller 2 (fresh [answer 17 :: 32 word reply, answer 5])) =
     result_of (close_communication scripted controller (fresh [answer 5 :: 32 word reply]))"
  by (simp add: stop_eq result_close_then_raise close_communication_eq harness)

text \<open>
  C3, amended. For each of the six methods that use the open session: when its call fails
  with a non-zero status and the close that follows fails too, the caller receives the
  failure of the close only, \<open>Exception('SmarAct SA_CloseSystem failed')\<close>.
\<close>

theorem close_failure_alone_is_reported:
  "(status (reply_to dll w
       (SA_GetNumberOfChannels (c_ulong (system_index self)))) \<noteq> 0 \<and>
    status (reply_to dll
       (snd (invoke dll
          (SA_GetNumberOfChannels (c_ulong (system_index self))) w))
       (SA_CloseSystem (c_ulong (system_index self)))) \<noteq> 0 \<longrightarrow>
      result_of (get_number_of_channels dll self w) = Inl (Exception ''SmarAct SA_CloseSystem failed'')) \<and>
   (status (reply_to dll w
       (SA_GetPosition_S (c_ulong (system_index self)) (c_ulong ch))) \<noteq> 0 \<and>
    status (reply_to dll
       (snd (invoke dll
          (SA_GetPosition_S (c_ulong (system_index self)) (c_ulong ch)) w))
       (SA_CloseSystem (c_ulong (system_index self)))) \<noteq> 0 \<longrightarrow>
      result_of (get_position dll self ch w) = Inl (Exception ''SmarAct SA_CloseSystem failed'')) \<and>
   (status (reply_to dll w
       (SA_FindReferenceMark_S (c_ulong (system_index self)) (c_ulong ch) 0 60000 1)) \<noteq> 0 \<and>
    status (reply_to dll
       (snd (invoke dll
          (SA_FindReferenceMark_S (c_ulong (system_index self)) (c_ulong ch) 0 60000 1) w))
       (SA_CloseSystem (c_ulong (system_index self)))) \<noteq> 0 \<longrightarrow>
      result_of (find_reference dll self ch w) = Inl (Exception ''SmarAct SA_CloseSystem failed'')) \<and>
   (status (reply_to dll w
       (SA_GotoPositionRelative_S (c_ulong (system_index self)) (c_ulong ch) (c_long v) 60000)) \<noteq> 0 \<and>
    status (reply_to dll
       (snd (invoke dll
          (SA_GotoPositionRelative_S (c_ulong (system_index self)) (c_ulong ch) (c_long v) 60000) w))
       (SA_CloseSystem (c_ulong (system_index self)))) \<noteq> 0 \<longrightarrow>
      result_of (relative_move dll self ch v w) = Inl (Exception ''SmarAct SA_CloseSystem failed'')) \<and>
   (status (reply_to dll w
       (SA_GotoPositionAbsolute_S (c_ulong (system_index self)) (c_ulong ch) (c_long v) 60000)) \<noteq> 0 \<and>
    status (reply_to dll
       (snd (invoke dll
          (SA_GotoPositionAbsolute_S (c_ulong (system_index self)) (c_ulong ch) (c_long v) 60000) w))
       (SA_CloseSystem (c_ulong (system_index self)))) \<noteq> 0 \<longrightarrow>
      result_of (absolute_move dll self ch v w) = Inl (Exception ''SmarAct SA_CloseSystem failed'')) \<and>
   (status (reply_to dll w
       (SA_Stop_S (c_ulong (system_index self)) (c_ulong ch))) \<noteq> 0 \<and>
    status (reply_to dll
       (snd (invoke dll
          (SA_Stop_S (c_ulong (system_index self)) (c_ulong ch)) w))
       (SA_CloseSystem (c_ulong (system_index self)))) \<noteq> 0 \<longrightarrow>
      result_of (stop dll self ch w) = Inl (Exception ''SmarAct SA_CloseSystem failed''))"
  by (simp add: method_eqs Let_def result_close_then_raise)
theorem close_failure_alone_is_reported_witness:
  "result_of (get_number_of_channels scripted controller (fresh [answer 17 :: 32 word reply, answer 5])) =
     Inl (Exception ''SmarAct SA_CloseSystem failed'') \<and>
   result_of (get_position scripted controller 2 (fresh [answer 17 :: 32 word reply, answer 5])) =
     Inl (Exception ''SmarAct SA_CloseSystem failed'') \<and>
   result_of (find_reference scripted controller 2 (fresh [answer 17 :: 32 word reply, answer 5])) =
     Inl (Exception ''SmarAct SA_CloseSystem failed'') \<and>
   result_of (relative_move scripted controller 2 (- 500) (fresh [answer 17 :: 32 word reply, answer 5])) =
     Inl (Exception ''SmarAct SA_CloseSystem failed'') \<and>
   result_of (absolute_move scripted controller 2 (- 500) (fresh [answer 17 :: 32 word reply, answer 5])) =
     Inl (Exception ''SmarAct SA_CloseSystem failed'') \<and>
   result_of (stop scripted controller 2 (fresh [answer 17 :: 32 word reply, answer 5])) =
     Inl (Exception ''SmarAct SA_CloseSystem failed'')"
  using close_failure_alone_is_reported
    [of scripted "fresh [answer 17 :: 32 word reply, answer 5]" controller 2 "- 500"]
  by (simp add: harness)

section \<open>The state of the session\<close>

text \<open>
  C7 does not hold as stated: the object has no open or closed state to query. Its two
  attributes after a failed \<open>stop\<close> are those \<open>__init__\<close> gave it when it opened the
  session.
\<close>

theorem object_same_after_failure_counterexample:
  "result_of (init scripted (fresh session_script)) = Inr controller \<and>
   result_of (stop scripted controller 2 (snd (init scripted (fresh session_script)))) =
     Inl (Exception ''SmarAct SA_Stop failed'') \<and>
   object_of (stop scripted controller 2 (snd (init scripted (fresh session_script)))) = controller"
  by (simp add: init_session stop_eq close_then_raise_eq Let_def reply_to_def scripted_def
      answer_def invoke_def)

text \<open>
  C7, amended. The object carries the locator and the system index only. After any of the
  six methods that use the open session fails with a non-zero status, the object is
  unchanged and the last call the library has received is the request to close the
  session of the stored system index.
\<close>

theorem close_request_is_last_call:
  "(status (reply_to dll w
       (SA_GetNumberOfChannels (c_ulong (system_index self)))) \<noteq> 0 \<longrightarrow>
      object_of (get_number_of_channels dll self w) = self \<and>
      last (calls (world_of (get_number_of_channels dll self w))) =
        SA_CloseSystem (c_ulong (system_index self))) \<and>
   (status (reply_to dll w
       (SA_GetPosition_S (c_ulong (system_index self)) (c_ulong ch))) \<noteq> 0 \<longrightarrow>
      object_of (get_position dll self ch w) = self \<and>
      last (calls (world_of (get_position dll self ch w))) =
        SA_CloseSystem (c_ulong (system_index self))) \<and>
   (status (reply_to dll w
       (SA_FindReferenceMark_S (c_ulong (system_index self)) (c_ulong ch) 0 60000 1)) \<noteq> 0 \<longrightarrow>
      object_of (find_reference dll self ch w) = self \<and>
      last (calls (world_of (find_reference dll self ch w))) =
        SA_CloseSystem (c_ulong (system_index self))) \<and>
   (status (reply_to dll w
       (SA_GotoPositionRelative_S (c_ulong (system_index self)) (c_ulong ch) (c_long v) 60000)) \<noteq> 0 \<longrightarrow>
      object_of (relative_move dll self ch v w) = self \<and>
      last (calls (world_of (relative_move dll self ch v w))) =
        SA_CloseSystem (c_ulong (system_index self))) \<and>
   (status (reply_to dll w
       (SA_GotoPositionAbsolute_S (c_ulong (system_index self)) (c_ulong ch) (c_long v) 60000)) \<noteq> 0 \<longrightarrow>
      object_of (absolute_move dll self ch v w) = self \<and>
      last (calls (world_of (absolute_move dll self ch v w))) =
        SA_CloseSystem (c_ulong (system_index self))) \<and>
   (status (reply_to dll w
       (SA_Stop_S (c_ulong (system_index self)) (c_ulong ch))) \<noteq> 0 \<longrightarrow>
      object_of (stop dll self ch w) = self \<and>
      last (calls (world_of (stop dll self ch w))) =
        SA_CloseSystem (c_ulong (system_index self)))"
  by (simp add: method_eqs Let_def object_close_then_raise calls_close_then_raise)
theorem close_request_is_last_call_witness:
  "object_of (get_number_of_channels scripted controller (fresh [answer 17 :: 32 word reply])) = controller \<and>
   last (calls (world_of (get_number_of_channels scripted controller (fresh [answer 17 :: 32 word reply])))) = SA_CloseSystem 3 \<and>
   object_of (stop scripted controller 2 (fresh [answer 17 :: 32 word reply])) = controller \<and>
   last (calls (world_of (stop scripted controller 2 (fresh [answer 17 :: 32 word reply])))) = SA_CloseSystem 3"
  using close_request_is_last_call
    [of scripted "fresh [answer 17 :: 32 word reply]" controller 2 "- 500"]
  by (simp add: harness)

section \<open>Finding the controller\<close>

lemma decode_ascii:
  "list_all (\<lambda>c. of_char c < (128 :: nat)) buf \<Longrightarrow> decode buf = Some (str buf)"
  unfolding decode_def str_def by (induction buf) simp_all

lemma scripted_first: "reply_to scripted (fresh (r # script)) c = r"
  by (simp add: reply_to_def scripted_def fresh_def)

lemmas scripted_only = scripted_first [where script = "[]"]

lemma status_listing: "status (listing buf) = 0"
  by (simp add: listing_def)

lemma out_list_listing: "out_list (listing buf) = buf"
  by (simp add: listing_def)

lemma no_locator_short: "length buf < 17 \<Longrightarrow> \<not> locator_at buf i"
  by (auto simp: locator_at_def is_locator_def)

lemma decode_invalid: "decode (CHR 0xFF # buf) = None"
  by (simp add: decode_def)

lemma is_locator_tag_digits:
  assumes "10 \<le> length ds" "list_all (\<lambda>c. c \<in> set ''0123456789'') ds"
  shows "is_locator (''usb:id:'' @ take 10 ds)"
proof -
  have "list_all (\<lambda>c. c \<in> set ''0123456789'') (take 10 ds)"
    using assms(2) unfolding list_all_iff by (meson in_set_takeD)
  moreover have "length (take 10 ds) = 10" using assms(1) by simp
  ultimately show ?thesis unfolding is_locator_def by simp
qed

text \<open>
  C4 does not hold for every buffer: \<open>outList.decode()\<close> comes before the pattern, and
  a buffer that is not well-formed UTF-8 makes it raise \<open>UnicodeDecodeError\<close>, whether
  the buffer holds a locator (the byte 0xFF followed by \<open>usb:id:3118167233\<close>) or none
  (the byte 0xFF alone).
\<close>

theorem undecodable_buffer_counterexample:
  "locator_at (CHR 0xFF # ''usb:id:3118167233'') 1 \<and>
   result_of (get_controller_locator scripted
      (fresh [listing (CHR 0xFF # ''usb:id:3118167233'') :: 32 word reply])) =
     Inl UnicodeDecodeError \<and>
   \<not> locator_at [CHR 0xFF] 0 \<and>
   result_of (get_controller_locator scripted (fresh [listing [CHR 0xFF] :: 32 word reply])) =
     Inl UnicodeDecodeError"
proof -
  have "locator_at (CHR 0xFF # ''usb:id:3118167233'') 1"
    by (simp add: locator_at_def is_locator_def)
  moreover have "\<not> locator_at [CHR 0xFF] 0"
    by (simp add: no_locator_short)
  moreover have "result_of (get_controller_locator scripted
      (fresh [listing (CHR 0xFF # buf) :: 32 word reply])) = Inl UnicodeDecodeError" for buf
    by (simp add: get_controller_locator_eq Let_def scripted_first status_listing
        out_list_listing decode_invalid)
  ultimately show ?thesis by simp
qed

text \<open>
  C4, amended. For every enumeration buffer returned with zero status that is well-formed
  UTF-8: if no offset of the buffer starts a locator, \<open>get_controller_locator\<close> raises
  \<open>Exception('No controller found')\<close>, and \<open>__init__\<close> raises it too having issued
  the enumeration call only, no \<open>SA_OpenSystem\<close>; if \<open>i\<close> is the first offset that
  starts a locator, the result is the 17 bytes from \<open>i\<close> on, as text.
\<close>

theorem find_controller_first_match:
  assumes "reply_to dll w
      (SA_FindSystems c_char (replicate ioListSize CHR '' '') (c_ulong (int ioListSize))) = r"
    and "status r = 0" and "decode (out_list r) \<noteq> None"
  shows "((\<forall>i. \<not> locator_at (out_list r) i) \<longrightarrow>
            result_of (get_controller_locator dll w) = Inl (Exception ''No controller found'') \<and>
            result_of (init dll w) = Inl (Exception ''No controller found'') \<and>
            calls (snd (init dll w)) =
              calls w @ [SA_FindSystems c_char (replicate ioListSize CHR '' '')
                           (c_ulong (int ioListSize))]) \<and>
         (locator_at (out_list r) i \<and> (\<forall>j<i. \<not> locator_at (out_list r) j) \<longrightarrow>
            result_of (get_controller_locator dll w) = Inr (str (take 17 (drop i (out_list r)))))"
proof (intro conjI impI)
  assume none: "\<forall>i. \<not> locator_at (out_list r) i"
  show res: "result_of (get_controller_locator dll w) = Inl (Exception ''No controller found'')"
    using get_controller_locator_none [OF assms none] .
  show "result_of (init dll w) = Inl (Exception ''No controller found'')"
    by (simp add: init_no_locator [OF res])
  show "calls (snd (init dll w)) =
      calls w @ [SA_FindSystems c_char (replicate ioListSize CHR '' '') (c_ulong (int ioListSize))]"
    by (simp add: init_no_locator [OF res] calls_get_controller_locator)
next
  assume "locator_at (out_list r) i \<and> (\<forall>j<i. \<not> locator_at (out_list r) j)"
  then show "result_of (get_controller_locator dll w) = Inr (str (take 17 (drop i (out_list r))))"
    using get_controller_locator_first [OF assms] by blast
qed

theorem find_controller_first_match_witness:
  "result_of (get_controller_locator scripted
      (fresh [listing ''usb:id:3118167233 usb:id:9999999999'' :: 32 word reply])) =
     Inr (str ''usb:id:3118167233'') \<and>
   result_of (get_controller_locator scripted
      (fresh [listing ''  usb:id:3118167233 usb:id:9999999999'' :: 32 word reply])) =
     Inr (str ''usb:id:3118167233'') \<and>
   result_of (init scripted (fresh [listing ''usb:id:31181'' :: 32 word reply])) =
     Inl (Exception ''No controller found'') \<and>
   calls (snd (init scripted (fresh [listing ''usb:id:31181'' :: 32 word reply]))) =
     [SA_FindSystems c_char (replicate ioListSize CHR '' '') (c_ulong (int ioListSize))]"
proof -
  let ?two = "''usb:id:3118167233 usb:id:9999999999''"
  let ?padded = "''  usb:id:3118167233 usb:id:9999999999''"
  let ?cut = "''usb:id:31181''"
  have d1: "decode (out_list (listing ?two :: 32 word reply)) \<noteq> None"
    by (simp add: out_list_listing decode_ascii)
  have d2: "decode (out_list (listing ?padded :: 32 word reply)) \<noteq> None"
    by (simp add: out_list_listing decode_ascii)
  have d3: "decode (out_list (listing ?cut :: 32 word reply)) \<noteq> None"
    by (simp add: out_list_listing decode_ascii)
  have f1: "locator_at ?two 0 \<and> (\<forall>j<0. \<not> locator_at ?two j)"
    by (simp add: locator_at_def is_locator_def)
  have p2: "locator_at ?padded 2" by code_simp
  have p0: "\<not> locator_at ?padded 0" by code_simp
  have p1: "\<not> locator_at ?padded 1" by code_simp
  have f2: "locator_at ?padded 2 \<and> (\<forall>j<2. \<not> locator_at ?padded j)"
  proof (intro conjI allI impI)
    fix j :: nat assume "j < 2"
    then have "j = 0 \<or> j = 1" by arith
    then show "\<not> locator_at ?padded j" using p0 p1 by auto
  qed (rule p2)
  have f3: "\<forall>i. \<not> locator_at ?cut i"
    by (simp add: no_locator_short)
  have t2: "take 17 (drop 2 ?padded) = ''usb:id:3118167233''" by simp
  from find_controller_first_match
    [OF scripted_only status_listing d1, where i = 0] f1
  have "result_of (get_controller_locator scripted (fresh [listing ?two :: 32 word reply])) =
      Inr (str ''usb:id:3118167233'')"
    by (simp add: out_list_listing)
  moreover from find_controller_first_match
    [OF scripted_only status_listing d2, where i = 2] f2
  have "result_of (get_controller_locator scripted (fresh [listing ?padded :: 32 word reply])) =
      Inr (str ''usb:id:3118167233'')"
    unfolding out_list_listing t2 by blast
  moreover from find_controller_first_match
    [OF scripted_only status_listing d3] f3
  have "result_of (init scripted (fresh [listing ?cut :: 32 word reply])) =
      Inl (Exception ''No controller found'') \<and>
    calls (snd (init scripted (fresh [listing ?cut :: 32 word reply]))) =
      [SA_FindSystems c_char (replicate ioListSize CHR '' '') (c_ulong (int ioListSize))]"
    by (simp add: out_list_listing fresh_def)
  ultimately show ?thesis by simp
qed

text \<open>
  C9. A buffer in which the first locator position has the tag followed by more than ten
  digits is not refused: the result is the tag and the first ten of the digits. The
  witness is the buffer \<open>usb:id:31181672334\<close>, with eleven digits.
\<close>

theorem overlong_id_is_truncated:
  assumes "reply_to dll w
      (SA_FindSystems c_char (replicate ioListSize CHR '' '') (c_ulong (int ioListSize))) = r"
    and "status r = 0" and "decode (out_list r) \<noteq> None"
    and buf: "out_list r = pre @ ''usb:id:'' @ ds @ rest"
    and ds: "10 < length ds" "list_all (\<lambda>c. c \<in> set ''0123456789'') ds"
    and pre: "\<forall>j < length pre. \<not> locator_at (out_list r) j"
  shows "result_of (get_controller_locator dll w) = Inr (str (''usb:id:'' @ take 10 ds))"
proof -
  have sub: "take 17 (drop (length pre) (out_list r)) = ''usb:id:'' @ take 10 ds"
    unfolding buf using ds(1) by simp
  have "is_locator (''usb:id:'' @ take 10 ds)"
    using is_locator_tag_digits [of ds] ds by simp
  then have at: "locator_at (out_list r) (length pre)"
    unfolding locator_at_def sub .
  show ?thesis
    using get_controller_locator_first [OF assms(1-3) at pre] unfolding sub .
qed

theorem overlong_id_is_truncated_witness:
  "result_of (get_controller_locator scripted
      (fresh [listing ''usb:id:31181672334'' :: 32 word reply])) =
     Inr (str ''usb:id:3118167233'')"
proof -
  have d: "decode (out_list (listing ''usb:id:31181672334'' :: 32 word reply)) \<noteq> None"
    by (simp add: out_list_listing decode_ascii)
  have b: "out_list (listing ''usb:id:31181672334'' :: 32 word reply) =
      [] @ ''usb:id:'' @ ''31181672334'' @ []"
    by (simp add: out_list_listing)
  have "result_of (get_controller_locator scripted
      (fresh [listing ''usb:id:31181672334'' :: 32 word reply])) =
     Inr (str (''usb:id:'' @ take 10 ''31181672334''))"
    by (rule overlong_id_is_truncated [OF scripted_only status_listing d b]) simp_all
  then show ?thesis by simp
qed

text \<open>
  C10. Two runs of \<open>get_controller_locator\<close>, on any two libraries in any two worlds,
  whose enumeration calls return status zero and leave the same bytes in the buffer, have
  the same result: the same locator, or the same exception.
\<close>

theorem same_buffer_same_result:
  assumes "status (reply_to dll w
      (SA_FindSystems c_char (replicate ioListSize CHR '' '') (c_ulong (int ioListSize)))) = 0"
    and "status (reply_to dll' w'
      (SA_FindSystems c_char (replicate ioListSize CHR '' '') (c_ulong (int ioListSize)))) = 0"
    and "out_list (reply_to dll w
      (SA_FindSystems c_char (replicate ioListSize CHR '' '') (c_ulong (int ioListSize)))) =
     out_list (reply_to dll' w'
      (SA_FindSystems c_char (replicate ioListSize CHR '' '') (c_ulong (int ioListSize))))"
  shows "result_of (get_controller_locator dll w) = result_of (get_controller_locator dll' w')"
  using assms by (simp add: get_controller_locator_eq Let_def)

theorem same_buffer_same_result_witness:
  "result_of (get_controller_locator scripted
      (fresh [listing ''usb:id:3118167233 usb:id:9999999999'' :: 32 word reply])) =
   result_of (get_controller_locator scripted
      \<lparr>dll_state = [\<lparr>status = 0, out_value = 9 :: 32 word,
                       out_list = ''usb:id:3118167233 usb:id:9999999999''\<rparr>, answer 17],
       calls = [SA_CloseSystem 3], stdout = [''x'']\<rparr>)"
  by (rule same_buffer_same_result) (simp_all add: reply_to_def scripted_def fresh_def listing_def)

section \<open>Moving and reading back\<close>

lemma sint_add_in_range:
  fixes p :: "'l::len word"
  assumes "- (2 ^ (LENGTH('l) - 1)) \<le> sint p + d" "sint p + d < 2 ^ (LENGTH('l) - 1)"
  shows "sint (p + word_of_int d) = sint p + d"
proof -
  have "p + word_of_int d = word_of_int (sint p + d)" by simp
  then have "sint (p + word_of_int d) = signed_take_bit (LENGTH('l) - 1) (sint p + d)"
    by (simp only: sint_sbintrunc')
  also have "\<dots> = sint p + d"
    using assms by (rule signed_take_bit_int_eq_self)
  finally show ?thesis .
qed

lemma c_ulong_less:
  fixes n :: "'l::len word"
  assumes "0 \<le> ch" "ch < ulong_value n"
  shows "(c_ulong ch :: 'l word) < n"
proof -
  from assms(2) have "ch < uint n" by (simp add: ulong_value_def)
  also have "uint n < 2 ^ LENGTH('l)" by (rule uint_lt2p)
  finally have "ch < 2 ^ LENGTH('l)" .
  with assms(1) have "ch mod 2 ^ LENGTH('l) = ch" by (rule mod_pos_pos_trivial)
  then have "uint (c_ulong ch :: 'l word) = ch" by (simp add: c_ulong_def uint_word_of_int)
  with assms(2) show ?thesis by (simp add: word_less_def ulong_value_def)
qed

lemma get_position_in_range:
  fixes w :: "('t, 'l::len word) world"
  assumes "result_of (get_position dll self ch w) = Inr v"
  shows "- (2 ^ (LENGTH('l) - 1)) \<le> v \<and> v < 2 ^ (LENGTH('l) - 1)"
proof -
  from assms have "v = sint (out_value (reply_to dll w
      (SA_GetPosition_S (c_ulong (system_index self)) (c_ulong ch))))"
    by (simp add: get_position_eq Let_def close_then_raise_eq long_value_def split: if_splits)
  then show ?thesis using sint_ge sint_lt by blast
qed

lemmas bench_eval =
  get_number_of_channels_eq get_position_eq relative_move_eq Let_def reply_to_def invoke_eq
  fresh_def bench_def controller_def c_ulong_def c_long_def ulong_value_def long_value_def
  answer_def

text \<open>
  C6 does not hold for every delta: \<open>get_position\<close> reads the position from a
  \<open>c_long\<close> and \<open>relative_move\<close> passes the delta as one. On the 32-bit bench, from
  2147483647 on channel 1 a move by 1 reads back as -2147483648, and from 1000 on channel 0
  a move by 4294967296 reads back as 1000. By \<open>get_position_in_range\<close> no library can
  make \<open>get_position\<close> return a value out of the range of \<open>c_long\<close>.
\<close>

theorem position_overflow_counterexample:
  "result_of (get_number_of_channels ideal_dll controller (fresh bench)) = Inr 3 \<and>
   result_of (get_position ideal_dll controller 1 (fresh bench)) = Inr 2147483647 \<and>
   result_of (relative_move ideal_dll controller 1 1 (fresh bench)) = Inr () \<and>
   result_of (get_position ideal_dll controller 1
      (world_of (relative_move ideal_dll controller 1 1 (fresh bench)))) = Inr (- 2147483648) \<and>
   result_of (relative_move ideal_dll controller 0 4294967296 (fresh bench)) = Inr () \<and>
   result_of (get_position ideal_dll controller 0
      (world_of (relative_move ideal_dll controller 0 4294967296 (fresh bench)))) = Inr 1000"
  by (simp add: bench_eval)

text \<open>
  C6, amended. On the idealized library, for every channel index from 0 below the count
  that \<open>get_number_of_channels\<close> returns and every delta such that the prior position
  (what \<open>get_position\<close> returns before the move) plus the delta is in the range of a C
  \<open>long\<close>, \<open>relative_move\<close> succeeds and \<open>get_position\<close> after it returns the
  prior position plus the delta.
\<close>

theorem relative_move_then_get_position:
  fixes w :: "('l::len word ideal, 'l word) world"
  assumes count: "result_of (get_number_of_channels ideal_dll self w) = Inr channel_count"
    and ch: "0 \<le> ch" "ch < channel_count"
    and prior: "result_of (get_position ideal_dll self ch w) = Inr prior"
    and range: "- (2 ^ (LENGTH('l) - 1)) \<le> prior + delta" "prior + delta < 2 ^ (LENGTH('l) - 1)"
  shows "result_of (relative_move ideal_dll self ch delta w) = Inr () \<and>
         result_of (get_position ideal_dll self ch
            (world_of (relative_move ideal_dll self ch delta w))) = Inr (prior + delta)"
proof -
  let ?t = "dll_state w"
  let ?c = "c_ulong ch :: 'l word"
  from count have "channel_count = ulong_value (n_channels ?t)"
    by (simp add: get_number_of_channels_eq reply_to_def)
  with ch have lt: "?c < n_channels ?t" by (simp add: c_ulong_less)
  from prior lt have p: "prior = sint (positions ?t ?c)"
    by (simp add: get_position_eq reply_to_def long_value_def)
  have moved: "relative_move ideal_dll self ch delta w =
      (Inr (), self,
       w\<lparr>dll_state := ?t\<lparr>positions := (positions ?t)(?c := positions ?t ?c + c_long delta)\<rparr>,
         calls := calls w @ [SA_GotoPositionRelative_S (c_ulong (system_index self)) ?c
                              (c_long delta) 60000]\<rparr>)"
    using lt by (simp add: relative_move_eq reply_to_def invoke_eq answer_def)
  have "sint (positions ?t ?c + c_long delta) = prior + delta"
    unfolding p c_long_def using range [unfolded p] by (rule sint_add_in_range)
  then show ?thesis
    using lt by (simp add: moved get_position_eq reply_to_def long_value_def)
qed

theorem relative_move_then_get_position_witness:
  "result_of (get_number_of_channels ideal_dll controller (fresh bench)) = Inr 3 \<and>
   result_of (get_position ideal_dll controller 0 (fresh bench)) = Inr 1000 \<and>
   result_of (relative_move ideal_dll controller 0 (- 500) (fresh bench)) = Inr () \<and>
   result_of (get_position ideal_dll controller 0
      (world_of (relative_move ideal_dll controller 0 (- 500) (fresh bench)))) = Inr 500"
proof -
  have count: "result_of (get_number_of_channels ideal_dll controller (fresh bench)) = Inr 3"
    by (simp add: bench_eval)
  have prior: "result_of (get_position ideal_dll controller 0 (fresh bench)) = Inr 1000"
    by (simp add: bench_eval)
  from relative_move_then_get_position [OF count _ _ prior, of "- 500"]
  have "result_of (relative_move ideal_dll controller 0 (- 500) (fresh bench)) = Inr () \<and>
    result_of (get_position ideal_dll controller 0
      (world_of (relative_move ideal_dll controller 0 (- 500) (fresh bench)))) = Inr 500"
    by simp
  with count prior show ?thesis by simp
qed

section \<open>The parameters of the reference search\<close>

text \<open>
  C5. Whatever the library, the object, the channel index and the world, the first call
  \<open>find_reference\<close> issues is \<open>SA_FindReferenceMark_S\<close> with direction 0, hold time
  60000 and auto-zero 1; the only other call it can issue is the close of the session,
  when that call fails.
\<close>

theorem find_reference_parameters:
  "calls (world_of (find_reference dll self ch w)) =
     calls w @
       SA_FindReferenceMark_S (c_ulong (system_index self)) (c_ulong ch) 0 60000 1 #
       (if status (reply_to dll w
             (SA_FindReferenceMark_S (c_ulong (system_index self)) (c_ulong ch) 0 60000 1)) = 0
        then [] else [SA_CloseSystem (c_ulong (system_index self))])"
  by (simp add: find_reference_eq Let_def calls_close_then_raise calls_invoke calls_print)

theorem find_reference_parameters_witness:
  "calls (world_of (find_reference scripted controller 7 (fresh []))) =
     [SA_FindReferenceMark_S (3 :: 32 word) 7 0 60000 1] \<and>
   result_of (find_reference scripted controller 7 (fresh ([] :: 32 word reply list))) = Inr ()"
proof -
  have "calls (world_of (find_reference scripted controller 7 (fresh []))) =
      [SA_FindReferenceMark_S (3 :: 32 word) 7 0 60000 1]"
    using find_reference_parameters [of scripted controller 7 "fresh ([] :: 32 word reply list)"]
    by (simp add: harness)
  moreover have
    "result_of (find_reference scripted controller 7 (fresh ([] :: 32 word reply list))) = Inr ()"
    by (simp add: find_reference_eq harness)
  ultimately show ?thesis by simp
qed

section \<open>The attributes of the object\<close>

text \<open>
  C8. None of the seven methods callable after construction changes \<open>controller_locator\<close>
  or \<open>system_index\<close>, whether it returns or raises; the close, explicit or on the error
  path, leaves the stored system index as it was.
\<close>

theorem attributes_unchanged:
  "object_of (get_number_of_channels dll self w) = self \<and>
   object_of (get_position dll self ch w) = self \<and>
   object_of (find_reference dll self ch w) = self \<and>
   object_of (relative_move dll self ch v w) = self \<and>
   object_of (absolute_move dll self ch v w) = self \<and>
   object_of (stop dll self ch w) = self \<and>
   object_of (close_communication dll self w) = self"
  by (simp add: method_eqs Let_def object_close_then_raise close_communication_eq)

end
